theory Spec2Isabelle
  imports Complex_Main
begin

section \<open>The Python primitives used by \<open>kyriba_cli.py\<close>\<close>

text \<open>
  A Python \<open>str\<close> is modelled as a \<open>string\<close>: the list of its code points, for
  code points below 256 (the value of a \<open>char\<close> is the code point). The character
  classes are those of CPython for that range.
\<close>

datatype error = ValueError | IndexError | TypeError | OverflowError | AttributeError

definition isspace_char :: "char \<Rightarrow> bool" where
  \<comment> \<open>\<open>str.isspace\<close> on one character\<close>
  "isspace_char c =
     (let n = (of_char c :: nat)
      in (9 \<le> n \<and> n \<le> 13) \<or> (28 \<le> n \<and> n \<le> 32) \<or> n = 133 \<or> n = 160)"

definition isdecimal_char :: "char \<Rightarrow> bool" where
  \<comment> \<open>the characters \<open>int\<close> and \<open>float\<close> read as a decimal digit\<close>
  "isdecimal_char c = (let n = (of_char c :: nat) in 48 \<le> n \<and> n \<le> 57)"

definition isdigit_char :: "char \<Rightarrow> bool" where
  \<comment> \<open>\<open>str.isdigit\<close> on one character: the decimal digits and the superscripts
      U+00B2, U+00B3, U+00B9\<close>
  "isdigit_char c =
     (let n = (of_char c :: nat)
      in (48 \<le> n \<and> n \<le> 57) \<or> n = 178 \<or> n = 179 \<or> n = 185)"

definition isdigit :: "string \<Rightarrow> bool" where
  \<comment> \<open>\<open>s.isdigit()\<close>: false on the empty string\<close>
  "isdigit s = (s \<noteq> [] \<and> list_all isdigit_char s)"

definition strip :: "string \<Rightarrow> string" where
  \<comment> \<open>\<open>s.strip()\<close>\<close>
  "strip s = rev (dropWhile isspace_char (rev (dropWhile isspace_char s)))"

definition clamp_index :: "nat \<Rightarrow> int \<Rightarrow> nat" where
  \<comment> \<open>a slice bound on a sequence of length \<open>n\<close>: a negative one counts from the
      end, and the result is clipped to \<open>0..n\<close>\<close>
  "clamp_index n i = (if i < 0 then nat (int n + i) else min n (nat i))"

definition slice :: "int \<Rightarrow> int \<Rightarrow> 'a list \<Rightarrow> 'a list" where
  \<comment> \<open>\<open>s[a:b]\<close>\<close>
  "slice a b s =
     (let i = clamp_index (length s) a; j = clamp_index (length s) b in take (j - i) (drop i s))"

definition index :: "'a list \<Rightarrow> int \<Rightarrow> error + 'a" where
  \<comment> \<open>\<open>s[i]\<close>\<close>
  "index s i =
     (let n = int (length s); j = (if i < 0 then n + i else i)
      in if 0 \<le> j \<and> j < n then Inr (s ! nat j) else Inl IndexError)"

definition insert_at :: "int \<Rightarrow> 'a \<Rightarrow> 'a list \<Rightarrow> 'a list" where
  \<comment> \<open>the list after \<open>s.insert(i, x)\<close>\<close>
  "insert_at i x s = (let k = clamp_index (length s) i in take k s @ x # drop k s)"

definition ljust :: "nat \<Rightarrow> string \<Rightarrow> string" where
  \<comment> \<open>\<open>s.ljust(w)\<close>\<close>
  "ljust w s = s @ replicate (w - length s) CHR '' ''"

definition zfill :: "nat \<Rightarrow> string \<Rightarrow> string" where
  \<comment> \<open>\<open>s.zfill(w)\<close>: the zeros go after a leading sign\<close>
  "zfill w s =
     (if w \<le> length s then s
      else (case s of
              c # cs \<Rightarrow>
                if c = CHR ''+'' \<or> c = CHR ''-''
                then c # replicate (w - length s) CHR ''0'' @ cs
                else replicate (w - length s) CHR ''0'' @ s
            | [] \<Rightarrow> replicate w CHR ''0''))"

definition str_mul :: "string \<Rightarrow> nat \<Rightarrow> string" where
  \<comment> \<open>\<open>s * n\<close> on a \<open>str\<close>\<close>
  "str_mul s n = concat (replicate n s)"

subsection \<open>Integers and their decimal text\<close>

definition digit_char :: "int \<Rightarrow> char" where
  "digit_char d = char_of (48 + d)"

function str_nat :: "int \<Rightarrow> string" where
  \<comment> \<open>the decimal digits of a non-negative integer\<close>
  "str_nat n = (if n < 10 then [digit_char n] else str_nat (n div 10) @ [digit_char (n mod 10)])"
  by pat_completeness auto
termination
  by (relation "measure nat") auto

declare str_nat.simps [simp del]

definition str_int :: "int \<Rightarrow> string" where
  \<comment> \<open>\<open>str(n)\<close> on an \<open>int\<close>\<close>
  "str_int n = (if n < 0 then CHR ''-'' # str_nat (- n) else str_nat n)"

definition digit_val :: "char \<Rightarrow> int" where
  "digit_val c = of_char c - 48"

definition int_of_digits :: "string \<Rightarrow> int" where
  "int_of_digits ds = foldl (\<lambda>acc c. 10 * acc + digit_val c) 0 ds"

fun underscores_ok :: "char \<Rightarrow> string \<Rightarrow> bool" where
  \<comment> \<open>every underscore stands between two decimal digits; the first argument is the
      character before\<close>
  "underscores_ok prev [] = True"
| "underscores_ok prev (c # cs) =
     (if c = CHR ''_''
      then isdecimal_char prev \<and> (case cs of [] \<Rightarrow> False | d # _ \<Rightarrow> isdecimal_char d)
           \<and> underscores_ok c cs
      else underscores_ok c cs)"

definition drop_underscores :: "string \<Rightarrow> string option" where
  "drop_underscores s =
     (if underscores_ok CHR '' '' s then Some (filter (\<lambda>c. c \<noteq> CHR ''_'') s) else None)"

definition split_sign :: "string \<Rightarrow> bool \<times> string" where
  \<comment> \<open>an optional sign: whether it is a minus, and the rest\<close>
  "split_sign s =
     (case s of
        c # cs \<Rightarrow> if c = CHR ''-'' then (True, cs) else if c = CHR ''+'' then (False, cs)
                  else (False, s)
      | [] \<Rightarrow> (False, s))"

definition int_of_str :: "string \<Rightarrow> error + int" where
  \<comment> \<open>\<open>int(s)\<close> on a \<open>str\<close>, base 10 (the limit on the number of digits of later
      CPython versions is left out)\<close>
  "int_of_str s =
     (case drop_underscores (strip s) of
        None \<Rightarrow> Inl ValueError
      | Some t \<Rightarrow>
          (case split_sign t of
             (neg, ds) \<Rightarrow>
               if ds \<noteq> [] \<and> list_all isdecimal_char ds
               then Inr (if neg then - int_of_digits ds else int_of_digits ds)
               else Inl ValueError))"

subsection \<open>Floats\<close>

text \<open>
  A Python \<open>float\<close> is an IEEE 754 binary64 number: \<open>Fin x\<close> is the finite double of
  exact value \<open>x\<close>, and an operation rounds its exact result to the nearest double, ties
  to the even significand. The sign of zero is left out: the program neither prints a
  float nor divides by one.
\<close>

datatype pyfloat = Fin rat | PosInf | NegInf | NaN

function bit_length :: "int \<Rightarrow> nat" where
  \<comment> \<open>\<open>n.bit_length()\<close> for \<open>0 \<le> n\<close>\<close>
  "bit_length n = (if n \<le> 0 then 0 else Suc (bit_length (n div 2)))"
  by pat_completeness auto
termination
  by (relation "measure nat") auto

declare bit_length.simps [simp del]

definition round_half_even :: "int \<Rightarrow> int \<Rightarrow> int" where
  \<comment> \<open>the integer nearest to \<open>p / q\<close> for \<open>0 < q\<close>, a tie going to the even one\<close>
  "round_half_even p q =
     (let d = p div q; r = p mod q
      in if 2 * r < q then d else if q < 2 * r then d + 1 else if even d then d else d + 1)"

definition binade :: "int \<Rightarrow> int \<Rightarrow> int" where
  \<comment> \<open>\<open>\<lfloor>log\<^sub>2 (p / q)\<rfloor>\<close> for \<open>0 < p\<close> and \<open>0 < q\<close>\<close>
  "binade p q =
     (let k = int (bit_length p) - int (bit_length q)
      in if (if 0 \<le> k then q * 2 ^ nat k \<le> p else q \<le> p * 2 ^ nat (- k)) then k else k - 1)"

definition round_pos :: "int \<Rightarrow> int \<Rightarrow> rat option" where
  \<comment> \<open>the double nearest to \<open>p / q\<close> for \<open>0 < p\<close> and \<open>0 < q\<close>: 53 bits of
      significand, exponents from -1022 (below, the subnormal spacing); \<open>None\<close> is the
      overflow\<close>
  "round_pos p q =
     (let s = max (binade p q) (- 1022) - 52;
          n = (if 0 \<le> s then round_half_even p (q * 2 ^ nat s)
               else round_half_even (p * 2 ^ nat (- s)) q)
      in if 0 \<le> s
         then (if 2 ^ 1024 \<le> n * 2 ^ nat s then None else Some (of_int (n * 2 ^ nat s)))
         else Some (of_int n / of_int (2 ^ nat (- s))))"

definition fl :: "rat \<Rightarrow> pyfloat" where
  \<comment> \<open>rounding an exact result to a double\<close>
  "fl x =
     (case quotient_of x of
        (p, q) \<Rightarrow>
          if p = 0 then Fin 0
          else if 0 < p then (case round_pos p q of None \<Rightarrow> PosInf | Some y \<Rightarrow> Fin y)
          else (case round_pos (- p) q of None \<Rightarrow> NegInf | Some y \<Rightarrow> Fin (- y)))"

definition float_add :: "pyfloat \<Rightarrow> pyfloat \<Rightarrow> pyfloat" where
  "float_add a b =
     (case (a, b) of
        (Fin x, Fin y) \<Rightarrow> fl (x + y)
      | (NaN, _) \<Rightarrow> NaN
      | (_, NaN) \<Rightarrow> NaN
      | (PosInf, NegInf) \<Rightarrow> NaN
      | (NegInf, PosInf) \<Rightarrow> NaN
      | (PosInf, _) \<Rightarrow> PosInf
      | (NegInf, _) \<Rightarrow> NegInf
      | (Fin x, c) \<Rightarrow> c)"

definition float_mul100 :: "pyfloat \<Rightarrow> pyfloat" where
  \<comment> \<open>\<open>x * 100\<close>\<close>
  "float_mul100 a = (case a of Fin x \<Rightarrow> fl (x * 100) | c \<Rightarrow> c)"

definition float_div100 :: "pyfloat \<Rightarrow> pyfloat" where
  \<comment> \<open>\<open>x / 100\<close>\<close>
  "float_div100 a = (case a of Fin x \<Rightarrow> fl (x / 100) | c \<Rightarrow> c)"

definition int_of_float :: "pyfloat \<Rightarrow> error + int" where
  \<comment> \<open>\<open>int(x)\<close> on a \<open>float\<close>: truncation towards zero\<close>
  "int_of_float a =
     (case a of
        Fin x \<Rightarrow> Inr (if 0 \<le> x then \<lfloor>x\<rfloor> else - \<lfloor>- x\<rfloor>)
      | NaN \<Rightarrow> Inl ValueError
      | _ \<Rightarrow> Inl OverflowError)"

definition float_round2 :: "pyfloat \<Rightarrow> pyfloat" where
  \<comment> \<open>\<open>round(x, 2)\<close> on a \<open>float\<close>: the exact value rounded to two decimals, a tie
      going to the even one, and the double nearest to that\<close>
  "float_round2 a =
     (case a of
        Fin x \<Rightarrow> (case quotient_of (x * 100) of (p, q) \<Rightarrow> fl (of_int (round_half_even p q) / 100))
      | c \<Rightarrow> c)"

definition pow10 :: "int \<Rightarrow> rat" where
  "pow10 k = (if 0 \<le> k then 10 ^ nat k else 1 / 10 ^ nat (- k))"

definition lower_ascii :: "string \<Rightarrow> string" where
  "lower_ascii s =
     map (\<lambda>c. let n = (of_char c :: nat) in if 65 \<le> n \<and> n \<le> 90 then char_of (n + 32) else c) s"

definition parse_exponent :: "string \<Rightarrow> int option" where
  \<comment> \<open>what follows the digits of a decimal: nothing, or \<open>e\<close>, an optional sign and
      digits\<close>
  "parse_exponent s =
     (case s of
        [] \<Rightarrow> Some 0
      | c # cs \<Rightarrow>
          if c = CHR ''e'' \<or> c = CHR ''E''
          then (case split_sign cs of
                  (neg, ds) \<Rightarrow>
                    if ds \<noteq> [] \<and> list_all isdecimal_char ds
                    then Some (if neg then - int_of_digits ds else int_of_digits ds)
                    else None)
          else None)"

definition decimal_of_str :: "string \<Rightarrow> rat option" where
  \<comment> \<open>the exact value of an unsigned decimal: digits, an optional point and digits, an
      optional exponent, with a digit before or after the point\<close>
  "decimal_of_str s =
     (let ip = takeWhile isdecimal_char s; r1 = dropWhile isdecimal_char s;
          fp = (case r1 of [] \<Rightarrow> []
                | c # t \<Rightarrow> if c = CHR ''.'' then takeWhile isdecimal_char t else []);
          r2 = (case r1 of [] \<Rightarrow> []
                | c # t \<Rightarrow> if c = CHR ''.'' then dropWhile isdecimal_char t else r1)
      in if ip = [] \<and> fp = [] then None
         else (case parse_exponent r2 of
                 None \<Rightarrow> None
               | Some e \<Rightarrow> Some (of_int (int_of_digits (ip @ fp)) * pow10 (e - int (length fp)))))"

definition float_of_str :: "string \<Rightarrow> error + pyfloat" where
  \<comment> \<open>\<open>float(s)\<close> on a \<open>str\<close>\<close>
  "float_of_str s =
     (case drop_underscores (strip s) of
        None \<Rightarrow> Inl ValueError
      | Some t \<Rightarrow>
          (case split_sign t of
             (neg, u) \<Rightarrow>
               if lower_ascii u = ''inf'' \<or> lower_ascii u = ''infinity''
               then Inr (if neg then NegInf else PosInf)
               else if lower_ascii u = ''nan'' then Inr NaN
               else (case decimal_of_str u of
                       None \<Rightarrow> Inl ValueError
                     | Some x \<Rightarrow> Inr (fl (if neg then - x else x)))))"

definition float_eq :: "pyfloat \<Rightarrow> pyfloat \<Rightarrow> bool" where
  \<comment> \<open>\<open>a == b\<close> on floats: a NaN equals nothing\<close>
  "float_eq a b = (a \<noteq> NaN \<and> a = b)"


section \<open>The record model\<close>

text \<open>
  The three namedtuples. A counter or an amount holds the number that decoding and
  \<open>add_transaction\<close> give it, or the \<open>str\<close> that \<open>change_field_value\<close> stores
  there: \<open>handle_cli\<close> passes the new value as \<open>input()\<close> returns it.
\<close>

datatype int_or_str = I int | IS string

datatype float_or_str = F pyfloat | FS string

datatype py_record =
    Header string string string string string
  | Transaction string int_or_str float_or_str string
  | Footer string int_or_str float_or_str

datatype record_type = HeaderT | TransactionT | FooterT

datatype pyval = PStr string | PInt int | PFloat pyfloat | PAttr string

datatype pynum = NInt int | NFloat pyfloat

datatype log_msg =
    InvalidAmountFormat string
  | InvalidTransactionCounter string
  | InvalidCurrency string
  | FieldNotFound string record_type
  | NoRecordOfType record_type
  | FirstNotHeader
  | LastNotFooter
  | NotAllTransactions
  | CounterMismatch
  | ControlSumMismatch float_or_str pynum
  | StructureValid

definition HEADER_FIELD_ID :: string where
  "HEADER_FIELD_ID = ''01''"

definition TRANSACTION_FIELD_ID :: string where
  "TRANSACTION_FIELD_ID = ''02''"

definition FOOTER_FIELD_ID :: string where
  "FOOTER_FIELD_ID = ''03''"

definition CURRENCY_VALUES :: "string list" where
  "CURRENCY_VALUES = [''USD'', ''EUR'', ''GBP'', ''PLN'', ''AZN'', ''TRL'']"

fun isinstance :: "py_record \<Rightarrow> record_type \<Rightarrow> bool" where
  "isinstance (Header _ _ _ _ _) t = (t = HeaderT)"
| "isinstance (Transaction _ _ _ _) t = (t = TransactionT)"
| "isinstance (Footer _ _ _) t = (t = FooterT)"

definition namedtuple_attrs :: "string list" where
  \<comment> \<open>the attributes an instance of a namedtuple class has besides its fields
      (CPython 3.11)\<close>
  "namedtuple_attrs =
     [''__add__'', ''__class__'', ''__class_getitem__'', ''__contains__'', ''__delattr__'',
      ''__dir__'', ''__doc__'', ''__eq__'', ''__format__'', ''__ge__'', ''__getattribute__'',
      ''__getitem__'', ''__getnewargs__'', ''__getstate__'', ''__gt__'', ''__hash__'',
      ''__init__'', ''__init_subclass__'', ''__iter__'', ''__le__'', ''__len__'', ''__lt__'',
      ''__match_args__'', ''__module__'', ''__mul__'', ''__ne__'', ''__new__'', ''__reduce__'',
      ''__reduce_ex__'', ''__repr__'', ''__rmul__'', ''__setattr__'', ''__sizeof__'',
      ''__slots__'', ''__str__'', ''__subclasshook__'', ''_asdict'', ''_field_defaults'',
      ''_fields'', ''_make'', ''_replace'', ''count'', ''index'']"

definition val_of_int_or_str :: "int_or_str \<Rightarrow> pyval" where
  "val_of_int_or_str v = (case v of I n \<Rightarrow> PInt n | IS s \<Rightarrow> PStr s)"

definition val_of_float_or_str :: "float_or_str \<Rightarrow> pyval" where
  "val_of_float_or_str v = (case v of F x \<Rightarrow> PFloat x | FS s \<Rightarrow> PStr s)"

fun field_value :: "py_record \<Rightarrow> string \<Rightarrow> pyval option" where
  \<comment> \<open>the value of a field of the namedtuple, \<open>None\<close> when it has no such field\<close>
  "field_value (Header field_id name surname patronymic address) f =
     (if f = ''field_id'' then Some (PStr field_id)
      else if f = ''name'' then Some (PStr name)
      else if f = ''surname'' then Some (PStr surname)
      else if f = ''patronymic'' then Some (PStr patronymic)
      else if f = ''address'' then Some (PStr address)
      else None)"
| "field_value (Transaction field_id counter amount currency) f =
     (if f = ''field_id'' then Some (PStr field_id)
      else if f = ''counter'' then Some (val_of_int_or_str counter)
      else if f = ''amount'' then Some (val_of_float_or_str amount)
      else if f = ''currency'' then Some (PStr currency)
      else None)"
| "field_value (Footer field_id total_counter control_sum) f =
     (if f = ''field_id'' then Some (PStr field_id)
      else if f = ''total_counter'' then Some (val_of_int_or_str total_counter)
      else if f = ''control_sum'' then Some (val_of_float_or_str control_sum)
      else None)"

definition getattr :: "py_record \<Rightarrow> string \<Rightarrow> error + pyval" where
  \<comment> \<open>\<open>getattr(record, name)\<close>: a field, or a method or class attribute of the tuple\<close>
  "getattr r f =
     (case field_value r f of
        Some v \<Rightarrow> Inr v
      | None \<Rightarrow> if f \<in> set namedtuple_attrs then Inr (PAttr f) else Inl AttributeError)"

definition hasattr :: "py_record \<Rightarrow> string \<Rightarrow> bool" where
  "hasattr r f = (case getattr r f of Inr _ \<Rightarrow> True | Inl _ \<Rightarrow> False)"

fun replace_field :: "py_record \<Rightarrow> string \<Rightarrow> string \<Rightarrow> error + py_record" where
  \<comment> \<open>\<open>record._replace(**{f: v})\<close> for a \<open>str\<close> \<open>v\<close>: a name that is not a field
      raises (\<open>ValueError\<close> up to CPython 3.12)\<close>
  "replace_field (Header field_id name surname patronymic address) f v =
     (if f = ''field_id'' then Inr (Header v name surname patronymic address)
      else if f = ''name'' then Inr (Header field_id v surname patronymic address)
      else if f = ''surname'' then Inr (Header field_id name v patronymic address)
      else if f = ''patronymic'' then Inr (Header field_id name surname v address)
      else if f = ''address'' then Inr (Header field_id name surname patronymic v)
      else Inl ValueError)"
| "replace_field (Transaction field_id counter amount currency) f v =
     (if f = ''field_id'' then Inr (Transaction v counter amount currency)
      else if f = ''counter'' then Inr (Transaction field_id (IS v) amount currency)
      else if f = ''amount'' then Inr (Transaction field_id counter (FS v) currency)
      else if f = ''currency'' then Inr (Transaction field_id counter amount v)
      else Inl ValueError)"
| "replace_field (Footer field_id total_counter control_sum) f v =
     (if f = ''field_id'' then Inr (Footer v total_counter control_sum)
      else if f = ''total_counter'' then Inr (Footer field_id (IS v) control_sum)
      else if f = ''control_sum'' then Inr (Footer field_id total_counter (FS v))
      else Inl ValueError)"

section \<open>\<open>FixedWidthFile\<close>: the codec\<close>

text \<open>
  The file is the list of its lines: what \<open>readlines\<close> returns, and what the writes of
  \<open>write_file\<close> leave, one write for each record. A function that logs returns its
  messages, in order, with its result.
\<close>

definition parse_header :: "string \<Rightarrow> py_record" where
  "parse_header line =
     Header (slice 0 2 line) (strip (slice 2 30 line)) (strip (slice 30 60 line))
       (strip (slice 60 90 line)) (strip (slice 90 120 line))"

definition parse_transaction :: "string \<Rightarrow> log_msg list \<times> (error + py_record option)" where
  "parse_transaction line =
     (let counter_str = strip (slice 2 8 line);
          amount_str = strip (slice 8 20 line);
          currency = strip (slice 20 23 line)
      in if length amount_str \<noteq> 12 \<or> \<not> isdigit amount_str
         then ([InvalidAmountFormat amount_str], Inr None)
         else (case int_of_str counter_str of
                 Inl e \<Rightarrow> ([InvalidTransactionCounter counter_str], Inr None)
               | Inr counter \<Rightarrow>
                   if currency \<notin> set CURRENCY_VALUES
                   then ([InvalidCurrency currency], Inr None)
                   else (case float_of_str amount_str of
                           Inl e \<Rightarrow> ([], Inl e)
                         | Inr a \<Rightarrow>
                             ([], Inr (Some (Transaction TRANSACTION_FIELD_ID (I counter)
                                               (F (float_div100 a)) currency))))))"

definition parse_footer :: "string \<Rightarrow> error + py_record" where
  "parse_footer line =
     (case int_of_str (strip (slice 2 8 line)) of
        Inl e \<Rightarrow> Inl e
      | Inr total_counter \<Rightarrow>
          (case float_of_str (strip (slice 8 20 line)) of
             Inl e \<Rightarrow> Inl e
           | Inr c \<Rightarrow> Inr (Footer FOOTER_FIELD_ID (I total_counter) (F (float_div100 c)))))"

fun read_lines ::
  "string list \<Rightarrow> py_record list \<Rightarrow> log_msg list \<Rightarrow> log_msg list \<times> (error + py_record list)" where
  \<comment> \<open>the loop of \<open>read_file\<close>, with the records and the messages so far\<close>
  "read_lines [] records lg = (lg, Inr records)"
| "read_lines (line # lines) records lg =
     (let field_id = slice 0 2 line
      in if field_id = HEADER_FIELD_ID
         then read_lines lines (records @ [parse_header line]) lg
         else if field_id = TRANSACTION_FIELD_ID
         then (case parse_transaction line of
                 (l, Inl e) \<Rightarrow> (lg @ l, Inl e)
               | (l, Inr None) \<Rightarrow> read_lines lines records (lg @ l)
               | (l, Inr (Some transaction)) \<Rightarrow>
                   read_lines lines (records @ [transaction]) (lg @ l))
         else if field_id = FOOTER_FIELD_ID
         then (case parse_footer line of
                 Inl e \<Rightarrow> (lg, Inl e)
               | Inr footer \<Rightarrow> read_lines lines (records @ [footer]) lg)
         else read_lines lines records lg)"

definition read_file :: "string list \<Rightarrow> log_msg list \<times> (error + py_record list)" where
  "read_file file = read_lines file [] []"

definition format_header :: "string \<Rightarrow> string \<Rightarrow> string \<Rightarrow> string \<Rightarrow> string \<Rightarrow> string" where
  "format_header field_id name surname patronymic address =
     field_id @ ljust 28 name @ ljust 30 surname @ ljust 30 patronymic @ ljust 30 address
       @ [CHR 0x0A]"

definition str_of_int_or_str :: "int_or_str \<Rightarrow> string" where
  \<comment> \<open>\<open>str(v)\<close>\<close>
  "str_of_int_or_str v = (case v of I n \<Rightarrow> str_int n | IS s \<Rightarrow> s)"

definition int_times100 :: "float_or_str \<Rightarrow> error + int" where
  \<comment> \<open>\<open>int(v * 100)\<close>: a float is multiplied and truncated, a \<open>str\<close> is repeated
      100 times and read as an integer\<close>
  "int_times100 v =
     (case v of F x \<Rightarrow> int_of_float (float_mul100 x) | FS s \<Rightarrow> int_of_str (str_mul s 100))"

definition format_transaction ::
  "string \<Rightarrow> int_or_str \<Rightarrow> float_or_str \<Rightarrow> string \<Rightarrow> error + string" where
  "format_transaction field_id counter amount currency =
     (case int_times100 amount of
        Inl e \<Rightarrow> Inl e
      | Inr n \<Rightarrow>
          Inr (field_id @ zfill 6 (str_of_int_or_str counter) @ zfill 12 (str_int n)
                 @ ljust 3 currency @ replicate 97 CHR '' '' @ [CHR 0x0A]))"

definition format_footer :: "string \<Rightarrow> int_or_str \<Rightarrow> float_or_str \<Rightarrow> error + string" where
  "format_footer field_id total_counter control_sum =
     (case int_times100 control_sum of
        Inl e \<Rightarrow> Inl e
      | Inr n \<Rightarrow>
          Inr (field_id @ zfill 6 (str_of_int_or_str total_counter) @ zfill 12 (str_int n)
                 @ replicate 100 CHR '' '' @ [CHR 0x0A]))"

fun format_record :: "py_record \<Rightarrow> error + string" where
  \<comment> \<open>the branch of \<open>write_file\<close> for one record\<close>
  "format_record (Header field_id name surname patronymic address) =
     Inr (format_header field_id name surname patronymic address)"
| "format_record (Transaction field_id counter amount currency) =
     format_transaction field_id counter amount currency"
| "format_record (Footer field_id total_counter control_sum) =
     format_footer field_id total_counter control_sum"

fun write_file :: "py_record list \<Rightarrow> string list \<times> error option" where
  \<comment> \<open>the file is opened for writing, so it holds only what this call writes: the lines
      of the records before the first one that cannot be formatted, and the error
      raised there\<close>
  "write_file [] = ([], None)"
| "write_file (r # rs) =
     (case format_record r of
        Inl e \<Rightarrow> ([], Some e)
      | Inr line \<Rightarrow> (case write_file rs of (written, e) \<Rightarrow> (line # written, e)))"

section \<open>\<open>FixedWidthCLI\<close>: the operations\<close>

record 'a outcome =
  logged :: "log_msg list"
  stored :: "string list"
  returned :: "error + 'a"

fun find_field :: "py_record list \<Rightarrow> record_type \<Rightarrow> string \<Rightarrow> log_msg list \<times> (error + pyval option)" where
  \<comment> \<open>the loop of \<open>get_field_value\<close>: it returns at the first record of the type\<close>
  "find_field [] record_type field_name = ([NoRecordOfType record_type], Inr None)"
| "find_field (r # rs) record_type field_name =
     (if isinstance r record_type
      then (if hasattr r field_name
            then (case getattr r field_name of Inl e \<Rightarrow> ([], Inl e) | Inr v \<Rightarrow> ([], Inr (Some v)))
            else ([FieldNotFound field_name record_type], Inr None))
      else find_field rs record_type field_name)"

definition get_field_value :: "string list \<Rightarrow> record_type \<Rightarrow> string \<Rightarrow> pyval option outcome" where
  "get_field_value file record_type field_name =
     (case read_file file of
        (lg, Inl e) \<Rightarrow> \<lparr>logged = lg, stored = file, returned = Inl e\<rparr>
      | (lg, Inr records) \<Rightarrow>
          (case find_field records record_type field_name of
             (l, r) \<Rightarrow> \<lparr>logged = lg @ l, stored = file, returned = r\<rparr>))"

fun update_records :: "py_record list \<Rightarrow> record_type \<Rightarrow> string \<Rightarrow> string \<Rightarrow> error + py_record list" where
  \<comment> \<open>the loop of \<open>change_field_value\<close>\<close>
  "update_records [] record_type field_name new_value = Inr []"
| "update_records (r # rs) record_type field_name new_value =
     (if isinstance r record_type \<and> hasattr r field_name
      then (case replace_field r field_name new_value of
              Inl e \<Rightarrow> Inl e
            | Inr updated_record \<Rightarrow>
                (case update_records rs record_type field_name new_value of
                   Inl e \<Rightarrow> Inl e
                 | Inr us \<Rightarrow> Inr (updated_record # us)))
      else (case update_records rs record_type field_name new_value of
              Inl e \<Rightarrow> Inl e
            | Inr us \<Rightarrow> Inr (r # us)))"

definition persist :: "log_msg list \<Rightarrow> py_record list \<Rightarrow> unit outcome" where
  \<comment> \<open>the closing \<open>self.file.write_file(records)\<close> of an operation that returns
      nothing\<close>
  "persist lg records =
     (case write_file records of
        (written, None) \<Rightarrow> \<lparr>logged = lg, stored = written, returned = Inr ()\<rparr>
      | (written, Some e) \<Rightarrow> \<lparr>logged = lg, stored = written, returned = Inl e\<rparr>)"

definition change_field_value ::
  "string list \<Rightarrow> record_type \<Rightarrow> string \<Rightarrow> string \<Rightarrow> unit outcome" where
  "change_field_value file record_type field_name new_value =
     (case read_file file of
        (lg, Inl e) \<Rightarrow> \<lparr>logged = lg, stored = file, returned = Inl e\<rparr>
      | (lg, Inr records) \<Rightarrow>
          (case update_records records record_type field_name new_value of
             Inl e \<Rightarrow> \<lparr>logged = lg, stored = file, returned = Inl e\<rparr>
           | Inr updated_records \<Rightarrow> persist lg updated_records))"

definition add_transaction :: "string list \<Rightarrow> int \<Rightarrow> pyfloat \<Rightarrow> string \<Rightarrow> unit outcome" where
  "add_transaction file counter amount currency =
     (case read_file file of
        (lg, Inl e) \<Rightarrow> \<lparr>logged = lg, stored = file, returned = Inl e\<rparr>
      | (lg, Inr records) \<Rightarrow>
          (let new_transaction = Transaction TRANSACTION_FIELD_ID (I counter) (F amount) currency
           in persist lg (insert_at (- 1) new_transaction records)))"

fun total_counter_attr :: "py_record \<Rightarrow> error + int_or_str" where
  \<comment> \<open>\<open>r.total_counter\<close>\<close>
  "total_counter_attr (Footer _ t _) = Inr t"
| "total_counter_attr _ = Inl AttributeError"

fun control_sum_attr :: "py_record \<Rightarrow> error + float_or_str" where
  \<comment> \<open>\<open>r.control_sum\<close>\<close>
  "control_sum_attr (Footer _ _ c) = Inr c"
| "control_sum_attr _ = Inl AttributeError"

fun amount_attr :: "py_record \<Rightarrow> error + float_or_str" where
  \<comment> \<open>\<open>r.amount\<close>\<close>
  "amount_attr (Transaction _ _ a _) = Inr a"
| "amount_attr _ = Inl AttributeError"

fun amounts :: "py_record list \<Rightarrow> error + float_or_str list" where
  \<comment> \<open>\<open>[i.amount for i in transactions]\<close>\<close>
  "amounts [] = Inr []"
| "amounts (r # rs) =
     (case amount_attr r of
        Inl e \<Rightarrow> Inl e
      | Inr a \<Rightarrow> (case amounts rs of Inl e \<Rightarrow> Inl e | Inr as \<Rightarrow> Inr (a # as)))"

definition float_of_int :: "int \<Rightarrow> error + pyfloat" where
  \<comment> \<open>the conversion of an \<open>int\<close> operand that meets a float\<close>
  "float_of_int n =
     (case fl (of_int n) of Fin x \<Rightarrow> Inr (Fin x) | _ \<Rightarrow> Inl OverflowError)"

definition num_add :: "pynum \<Rightarrow> float_or_str \<Rightarrow> error + pynum" where
  \<comment> \<open>\<open>acc + v\<close> in \<open>sum\<close>\<close>
  "num_add acc v =
     (case v of
        FS s \<Rightarrow> Inl TypeError
      | F x \<Rightarrow>
          (case acc of
             NFloat a \<Rightarrow> Inr (NFloat (float_add a x))
           | NInt n \<Rightarrow>
               (case float_of_int n of Inl e \<Rightarrow> Inl e | Inr a \<Rightarrow> Inr (NFloat (float_add a x)))))"

fun sum_from :: "pynum \<Rightarrow> float_or_str list \<Rightarrow> error + pynum" where
  "sum_from acc [] = Inr acc"
| "sum_from acc (v # vs) =
     (case num_add acc v of Inl e \<Rightarrow> Inl e | Inr acc' \<Rightarrow> sum_from acc' vs)"

definition py_sum :: "float_or_str list \<Rightarrow> error + pynum" where
  \<comment> \<open>\<open>sum(vs)\<close>: the items are added from the left to the \<open>int\<close> 0 (CPython up to
      3.11; later versions compensate the rounding errors of a float sum)\<close>
  "py_sum vs = sum_from (NInt 0) vs"

definition num_round2 :: "pynum \<Rightarrow> pynum" where
  \<comment> \<open>\<open>round(x, 2)\<close> on a number\<close>
  "num_round2 x = (case x of NInt n \<Rightarrow> NInt n | NFloat a \<Rightarrow> NFloat (float_round2 a))"

definition round2 :: "float_or_str \<Rightarrow> error + pynum" where
  \<comment> \<open>\<open>round(v, 2)\<close>\<close>
  "round2 v = (case v of F x \<Rightarrow> Inr (NFloat (float_round2 x)) | FS s \<Rightarrow> Inl TypeError)"

definition num_eq :: "pynum \<Rightarrow> pynum \<Rightarrow> bool" where
  \<comment> \<open>\<open>a == b\<close> on numbers\<close>
  "num_eq a b =
     (case (a, b) of
        (NInt m, NInt n) \<Rightarrow> m = n
      | (NInt m, NFloat y) \<Rightarrow> y = Fin (of_int m)
      | (NFloat x, NInt n) \<Rightarrow> x = Fin (of_int n)
      | (NFloat x, NFloat y) \<Rightarrow> float_eq x y)"

definition counter_ne :: "int_or_str \<Rightarrow> nat \<Rightarrow> bool" where
  \<comment> \<open>\<open>v != n\<close> for the \<open>int\<close> \<open>n\<close>: a \<open>str\<close> differs from every \<open>int\<close>\<close>
  "counter_ne v n = (case v of I m \<Rightarrow> m \<noteq> int n | IS s \<Rightarrow> True)"

definition validate_records :: "py_record list \<Rightarrow> log_msg list \<times> (error + bool)" where
  \<comment> \<open>\<open>validate_file_structure\<close> after it has read the file\<close>
  "validate_records records =
     (case index records 0 of
        Inl e \<Rightarrow> ([], Inl e)
      | Inr first \<Rightarrow>
          if \<not> isinstance first HeaderT then ([FirstNotHeader], Inr False)
          else (case index records (- 1) of
                  Inl e \<Rightarrow> ([], Inl e)
                | Inr lst \<Rightarrow>
                    if \<not> isinstance lst FooterT then ([LastNotFooter], Inr False)
                    else (let transactions = slice 1 (- 1) records
                          in if \<not> list_all (\<lambda>i. isinstance i TransactionT) transactions
                             then ([NotAllTransactions], Inr False)
                             else (case total_counter_attr lst of
                                     Inl e \<Rightarrow> ([], Inl e)
                                   | Inr t \<Rightarrow>
                                       if counter_ne t (length transactions)
                                       then ([CounterMismatch], Inr False)
                                       else (case amounts transactions of
                                               Inl e \<Rightarrow> ([], Inl e)
                                             | Inr as \<Rightarrow>
      (case py_sum as of
         Inl e \<Rightarrow> ([], Inl e)
       | Inr computed \<Rightarrow>
           (case control_sum_attr lst of
              Inl e \<Rightarrow> ([], Inl e)
            | Inr c \<Rightarrow>
                (case round2 c of
                   Inl e \<Rightarrow> ([], Inl e)
                 | Inr rc \<Rightarrow>
                     if \<not> num_eq (num_round2 computed) rc
                     then ([ControlSumMismatch c computed], Inr False)
                     else ([StructureValid], Inr True)))))))))"

definition validate_file_structure :: "string list \<Rightarrow> bool outcome" where
  "validate_file_structure file =
     (case read_file file of
        (lg, Inl e) \<Rightarrow> \<lparr>logged = lg, stored = file, returned = Inl e\<rparr>
      | (lg, Inr records) \<Rightarrow>
          (case validate_records records of
             (l, r) \<Rightarrow> \<lparr>logged = lg @ l, stored = file, returned = r\<rparr>))"


section \<open>The fields of the tuples, and the five checks of the structure\<close>

definition fields_of :: "record_type \<Rightarrow> string list" where
  \<comment> \<open>the field names of the three namedtuples\<close>
  "fields_of t =
     (case t of
        HeaderT \<Rightarrow> [''field_id'', ''name'', ''surname'', ''patronymic'', ''address'']
      | TransactionT \<Rightarrow> [''field_id'', ''counter'', ''amount'', ''currency'']
      | FooterT \<Rightarrow> [''field_id'', ''total_counter'', ''control_sum''])"

definition updated_record :: "record_type \<Rightarrow> string \<Rightarrow> string \<Rightarrow> py_record \<Rightarrow> py_record" where
  \<comment> \<open>what the loop of \<open>change_field_value\<close> appends for a record, when the name
      is no other attribute of the tuple\<close>
  "updated_record record_type field_name new_value r =
     (if isinstance r record_type \<and> field_value r field_name \<noteq> None
      then (case replace_field r field_name new_value of Inr r' \<Rightarrow> r' | Inl e \<Rightarrow> r)
      else r)"

fun decoded :: "py_record \<Rightarrow> bool" where
  \<comment> \<open>the counters and amounts are numbers, as in every record that \<open>read_file\<close> returns\<close>
  "decoded (Header _ _ _ _ _) = True"
| "decoded (Transaction _ (I _) (F _) _) = True"
| "decoded (Footer _ (I _) (F _)) = True"
| "decoded _ = False"

text \<open>
  The five checks as the specification words them, each a predicate of its own on the
  sequence, and the reason of the first that fails: what \<open>validate_records\<close> is
  compared with.
\<close>

definition first_is_header :: "py_record list \<Rightarrow> bool" where
  "first_is_header rs = (case rs of [] \<Rightarrow> False | r # _ \<Rightarrow> isinstance r HeaderT)"

definition last_is_footer :: "py_record list \<Rightarrow> bool" where
  "last_is_footer rs = (rs \<noteq> [] \<and> isinstance (last rs) FooterT)"

definition middle :: "py_record list \<Rightarrow> py_record list" where
  \<comment> \<open>the records strictly between the first and the last\<close>
  "middle rs = butlast (tl rs)"

definition middle_all_transactions :: "py_record list \<Rightarrow> bool" where
  "middle_all_transactions rs = list_all (\<lambda>r. isinstance r TransactionT) (middle rs)"

definition counter_matches :: "py_record list \<Rightarrow> bool" where
  "counter_matches rs =
     (case last rs of Footer _ (I n) _ \<Rightarrow> n = int (length (middle rs)) | _ \<Rightarrow> False)"

definition float_amounts :: "py_record list \<Rightarrow> pyfloat list" where
  \<comment> \<open>the amounts of the Transactions of a list, in order\<close>
  "float_amounts rs =
     concat (map (\<lambda>r. case r of Transaction _ _ (F x) _ \<Rightarrow> [x] | _ \<Rightarrow> []) rs)"

definition amount_sum :: "pyfloat list \<Rightarrow> pynum" where
  \<comment> \<open>the sum of floats from the left: the \<open>int\<close> 0 when there is none\<close>
  "amount_sum xs = (case xs of [] \<Rightarrow> NInt 0 | _ # _ \<Rightarrow> NFloat (foldl float_add (Fin 0) xs))"

definition footer_control_sum :: "py_record list \<Rightarrow> float_or_str" where
  "footer_control_sum rs = (case last rs of Footer _ _ c \<Rightarrow> c | _ \<Rightarrow> FS [])"

definition control_sum_matches :: "py_record list \<Rightarrow> bool" where
  "control_sum_matches rs =
     (case footer_control_sum rs of
        F c \<Rightarrow> num_eq (num_round2 (amount_sum (float_amounts (middle rs)))) (num_round2 (NFloat c))
      | FS _ \<Rightarrow> False)"

definition structure_checks :: "py_record list \<Rightarrow> (log_msg \<times> bool) list" where
  \<comment> \<open>the five checks in their order, each with the reason logged when it fails\<close>
  "structure_checks rs =
     [(FirstNotHeader, first_is_header rs),
      (LastNotFooter, last_is_footer rs),
      (NotAllTransactions, middle_all_transactions rs),
      (CounterMismatch, counter_matches rs),
      (ControlSumMismatch (footer_control_sum rs) (amount_sum (float_amounts (middle rs))),
       control_sum_matches rs)]"

fun first_failing :: "(log_msg \<times> bool) list \<Rightarrow> log_msg" where
  \<comment> \<open>the reason of the first check that fails, \<open>StructureValid\<close> when none does\<close>
  "first_failing [] = StructureValid"
| "first_failing ((m, ok) # cs) = (if ok then first_failing cs else m)"

section \<open>Sample lines\<close>

definition sample_header_with :: "string \<Rightarrow> string" where
  \<comment> \<open>a Header line from the text of its surname\<close>
  "sample_header_with surname =
     ''01'' @ ljust 28 ''John'' @ ljust 30 surname @ ljust 30 ''Peter'' @ ljust 30 ''1 Main St''
       @ [CHR 0x0A]"

definition sample_header_line :: string where
  "sample_header_line = sample_header_with ''Doe''"

definition sample_transaction_line :: "string \<Rightarrow> string \<Rightarrow> string \<Rightarrow> string" where
  \<comment> \<open>a Transaction line from the text of its three fields\<close>
  "sample_transaction_line c a cur = ''02'' @ c @ a @ cur @ replicate 97 CHR '' '' @ [CHR 0x0A]"

definition sample_footer_line :: "string \<Rightarrow> string \<Rightarrow> string" where
  \<comment> \<open>a Footer line from the text of its two fields\<close>
  "sample_footer_line c a = ''03'' @ c @ a @ replicate 100 CHR '' '' @ [CHR 0x0A]"

section \<open>Indexing, inserting and writing\<close>

lemma clamp_index_minus1: "clamp_index n (- 1) = n - 1"
  by (simp add: clamp_index_def nat_diff_distrib')

lemma insert_at_minus1_Nil: "insert_at (- 1) x [] = [x]"
  by (simp add: insert_at_def clamp_index_def)

lemma insert_at_minus1: "s \<noteq> [] \<Longrightarrow> insert_at (- 1) x s = butlast s @ [x, last s]"
proof -
  assume ne: "s \<noteq> []"
  have t: "take (length s - 1) s = butlast s" by (simp add: butlast_conv_take)
  have d: "drop (length s - 1) s = [last s]"
    using ne by (metis append_butlast_last_id append_eq_conv_conj length_butlast)
  show ?thesis using t d by (simp add: insert_at_def clamp_index_minus1 Let_def)
qed

lemma index_first: "s \<noteq> [] \<Longrightarrow> index s 0 = Inr (hd s)"
  by (cases s) (simp_all add: index_def)


lemma index_last: "s \<noteq> [] \<Longrightarrow> index s (- 1) = Inr (last s)"
proof -
  assume ne: "s \<noteq> []"
  then have "nat (int (length s) - 1) = length s - 1" by simp
  with ne show ?thesis by (simp add: index_def last_conv_nth)
qed

lemma slice_middle: "slice 1 (- 1) s = butlast (tl s)"
proof (cases s)
  case Nil
  then show ?thesis by (simp add: slice_def clamp_index_def)
next
  case (Cons x xs)
  then show ?thesis
    by (simp add: slice_def clamp_index_def butlast_conv_take nat_diff_distrib')
qed

lemma write_file_all:
  "map format_record rs = map Inr lines \<Longrightarrow> write_file rs = (lines, None)"
proof (induction rs arbitrary: lines)
  case Nil
  then show ?case by simp
next
  case (Cons r rs)
  then obtain l ls where lines: "lines = l # ls" by (cases lines) auto
  with Cons.prems have "format_record r = Inr l" and "map format_record rs = map Inr ls"
    by auto
  with Cons.IH lines show ?case by simp
qed

lemma persist_all:
  "map format_record rs = map Inr lines \<Longrightarrow>
     persist lg rs = \<lparr>logged = lg, stored = lines, returned = Inr ()\<rparr>"
  by (simp add: persist_def write_file_all)

lemma format_transaction_finite:
  "float_mul100 a = Fin y \<Longrightarrow> \<exists>line. format_transaction fid c (F a) cur = Inr line"
  by (simp add: format_transaction_def int_times100_def int_of_float_def)

section \<open>The codec\<close>

text \<open>
  C1. Decoding the line that encodes a Transaction does not always give the record back.
  The Transaction with counter 1, currency USD and amount 0.29 (the float that decoding
  the amount field \<open>000000000029\<close> yields) is encoded with the amount field
  \<open>000000000028\<close>, because \<open>int(amount * 100)\<close> truncates the product
  28.999999999999996; decoding that line yields the amount 0.28.
\<close>

theorem transaction_round_trip_fails:
  "parse_transaction (sample_transaction_line ''000001'' ''000000000029'' ''USD'')
     = ([], Inr (Some (Transaction ''02'' (I 1) (F (fl (29 / 100))) ''USD'')))
   \<and> format_transaction ''02'' (I 1) (F (fl (29 / 100))) ''USD''
     = Inr (sample_transaction_line ''000001'' ''000000000028'' ''USD'')
   \<and> parse_transaction (sample_transaction_line ''000001'' ''000000000028'' ''USD'')
     = ([], Inr (Some (Transaction ''02'' (I 1) (F (fl (28 / 100))) ''USD'')))
   \<and> fl (28 / 100) \<noteq> fl (29 / 100)"
  by code_simp

text \<open>Hence a record whose encoding decodes to another record.\<close>

theorem transaction_round_trip_fails_witness:
  "\<exists>line r. format_transaction ''02'' (I 1) (F (fl (29 / 100))) ''USD'' = Inr line
     \<and> parse_transaction line = ([], Inr (Some r))
     \<and> r \<noteq> Transaction ''02'' (I 1) (F (fl (29 / 100))) ''USD''"
proof -
  have ne: "Transaction ''02'' (I 1) (F (fl (28 / 100))) ''USD''
              \<noteq> Transaction ''02'' (I 1) (F (fl (29 / 100))) ''USD''"
    using transaction_round_trip_fails by simp
  with transaction_round_trip_fails show ?thesis by blast
qed

text \<open>
  C8. Reading a file stops with a \<open>ValueError\<close> on a Transaction line whose amount
  field holds twelve characters that \<open>isdigit\<close> accepts and \<open>float\<close> does not (here
  eleven zeros and the superscript two, U+00B2): the line passes the checks of
  \<open>parse_transaction\<close> and \<open>float(amount_str)\<close> raises outside any \<open>try\<close>. No
  record of the file is returned, not even that of the Header line after it.
\<close>

theorem read_file_aborts_on_transaction_line:
  "read_file [sample_transaction_line ''000001'' (''00000000000'' @ [CHR 0xB2]) ''USD'',
              sample_header_line]
     = ([], Inl ValueError)"
  by code_simp

text \<open>Every record that \<open>read_file\<close> returns holds numbers where numbers belong.\<close>

lemma parse_transaction_decoded:
  "parse_transaction line = (l, Inr (Some t)) \<Longrightarrow> decoded t"
  by (auto simp: parse_transaction_def Let_def split: if_splits sum.splits)

lemma parse_footer_decoded: "parse_footer line = Inr f \<Longrightarrow> decoded f"
  by (auto simp: parse_footer_def split: sum.splits)

lemma read_lines_decoded:
  "list_all decoded acc \<Longrightarrow> read_lines lines acc lg = (lg', Inr rs) \<Longrightarrow> list_all decoded rs"
proof (induction lines arbitrary: acc lg)
  case Nil
  then show ?case by simp
next
  case (Cons line lines)
  show ?case
  proof (cases "slice 0 2 line = HEADER_FIELD_ID")
    case True
    with Cons.prems have "read_lines lines (acc @ [parse_header line]) lg = (lg', Inr rs)"
      by simp
    moreover have "list_all decoded (acc @ [parse_header line])"
      using Cons.prems(1) by (simp add: parse_header_def)
    ultimately show ?thesis by (rule Cons.IH [rotated])
  next
    case nh: False
    show ?thesis
    proof (cases "slice 0 2 line = TRANSACTION_FIELD_ID")
      case True
      obtain l r where p: "parse_transaction line = (l, r)" by (cases "parse_transaction line")
      show ?thesis
      proof (cases r)
        case (Inl e)
        with nh True p Cons.prems show ?thesis by simp
      next
        case (Inr opt)
        show ?thesis
        proof (cases opt)
          case None
          with nh True p Inr Cons.prems have "read_lines lines acc (lg @ l) = (lg', Inr rs)"
            by simp
          with Cons.prems(1) show ?thesis by (rule Cons.IH)
        next
          case (Some t)
          with nh True p Inr Cons.prems
          have "read_lines lines (acc @ [t]) (lg @ l) = (lg', Inr rs)" by simp
          moreover have "list_all decoded (acc @ [t])"
            using Cons.prems(1) p Inr Some parse_transaction_decoded by simp
          ultimately show ?thesis by (rule Cons.IH [rotated])
        qed
      qed
    next
      case nt: False
      show ?thesis
      proof (cases "slice 0 2 line = FOOTER_FIELD_ID")
        case True
        show ?thesis
        proof (cases "parse_footer line")
          case (Inl e)
          with nh nt True Cons.prems show ?thesis by simp
        next
          case (Inr f)
          with nh nt True Cons.prems
          have "read_lines lines (acc @ [f]) lg = (lg', Inr rs)" by simp
          moreover have "list_all decoded (acc @ [f])"
            using Cons.prems(1) Inr parse_footer_decoded by simp
          ultimately show ?thesis by (rule Cons.IH [rotated])
        qed
      next
        case False
        with nh nt Cons.prems have "read_lines lines acc lg = (lg', Inr rs)" by simp
        with Cons.prems(1) show ?thesis by (rule Cons.IH)
      qed
    qed
  qed
qed

lemma read_file_decoded: "read_file file = (lg, Inr rs) \<Longrightarrow> list_all decoded rs"
  unfolding read_file_def using read_lines_decoded [of "[]"] by simp

section \<open>\<open>get_field_value\<close>\<close>

text \<open>
  C7. For a name that is an attribute of every namedtuple but not a field, such as
  \<open>count\<close>, \<open>get_field_value\<close> logs nothing and returns the attribute (a bound
  method) as the value of the field.
\<close>

theorem get_field_value_returns_method:
  "get_field_value [sample_header_line] HeaderT ''count''
     = \<lparr>logged = [], stored = [sample_header_line], returned = Inr (Some (PAttr ''count''))\<rparr>"
  by code_simp

section \<open>\<open>change_field_value\<close>\<close>

lemma hasattr_field:
  "f \<notin> set namedtuple_attrs \<Longrightarrow> hasattr r f = (field_value r f \<noteq> None)"
  by (auto simp: hasattr_def getattr_def split: option.splits)

lemma replace_field_Header:
  "f \<in> set (fields_of HeaderT) \<Longrightarrow>
     \<exists>r'. replace_field (Header a b c d e) f v = Inr r' \<and> isinstance r' HeaderT
       \<and> field_value (Header a b c d e) f \<noteq> None
       \<and> field_value r' f = Some (PStr v)
       \<and> (\<forall>g. g \<noteq> f \<longrightarrow> field_value r' g = field_value (Header a b c d e) g)"
  by (auto simp: fields_of_def)

lemma replace_field_Transaction:
  "f \<in> set (fields_of TransactionT) \<Longrightarrow>
     \<exists>r'. replace_field (Transaction a b c d) f v = Inr r' \<and> isinstance r' TransactionT
       \<and> field_value (Transaction a b c d) f \<noteq> None
       \<and> field_value r' f = Some (PStr v)
       \<and> (\<forall>g. g \<noteq> f \<longrightarrow> field_value r' g = field_value (Transaction a b c d) g)"
  by (auto simp: fields_of_def val_of_int_or_str_def val_of_float_or_str_def)

lemma replace_field_Footer:
  "f \<in> set (fields_of FooterT) \<Longrightarrow>
     \<exists>r'. replace_field (Footer a b c) f v = Inr r' \<and> isinstance r' FooterT
       \<and> field_value (Footer a b c) f \<noteq> None
       \<and> field_value r' f = Some (PStr v)
       \<and> (\<forall>g. g \<noteq> f \<longrightarrow> field_value r' g = field_value (Footer a b c) g)"
  by (auto simp: fields_of_def val_of_int_or_str_def val_of_float_or_str_def)

lemma replace_field_frame:
  assumes "isinstance r t" and "f \<in> set (fields_of t)"
  shows "\<exists>r'. replace_field r f v = Inr r' \<and> isinstance r' t
           \<and> field_value r f \<noteq> None
           \<and> field_value r' f = Some (PStr v)
           \<and> (\<forall>g. g \<noteq> f \<longrightarrow> field_value r' g = field_value r g)"
proof (cases r)
  case (Header a b c d e)
  with assms show ?thesis using replace_field_Header [of f a b c d e v] by simp
next
  case (Transaction a b c d)
  with assms show ?thesis using replace_field_Transaction [of f a b c d v] by simp
next
  case (Footer a b c)
  with assms show ?thesis using replace_field_Footer [of f a b c v] by simp
qed

lemma field_value_None:
  "isinstance r t \<Longrightarrow> f \<notin> set (fields_of t) \<Longrightarrow> field_value r f = None"
  by (cases r) (auto simp: fields_of_def)

lemma field_value_replace:
  "field_value r f \<noteq> None \<Longrightarrow> \<exists>r'. replace_field r f v = Inr r'"
  by (cases r) (auto split: if_splits)

lemma update_records_map:
  "f \<notin> set namedtuple_attrs \<Longrightarrow>
     update_records rs t f v = Inr (map (updated_record t f v) rs)"
proof (induction rs)
  case Nil
  then show ?case by simp
next
  case (Cons r rs)
  show ?case
  proof (cases "isinstance r t \<and> field_value r f \<noteq> None")
    case True
    then obtain r' where "replace_field r f v = Inr r'" using field_value_replace by blast
    with True Cons show ?thesis by (simp add: hasattr_field updated_record_def)
  next
    case False
    with Cons show ?thesis by (auto simp add: hasattr_field updated_record_def)
  qed
qed

lemma updated_record_frame:
  "if isinstance r t \<and> f \<in> set (fields_of t)
   then isinstance (updated_record t f v r) t
        \<and> field_value (updated_record t f v r) f = Some (PStr v)
        \<and> (\<forall>g. g \<noteq> f \<longrightarrow> field_value (updated_record t f v r) g = field_value r g)
   else updated_record t f v r = r"
proof (cases "isinstance r t \<and> f \<in> set (fields_of t)")
  case True
  then obtain r' where r': "replace_field r f v = Inr r'" "isinstance r' t"
      "field_value r f \<noteq> None" "field_value r' f = Some (PStr v)"
      "\<forall>g. g \<noteq> f \<longrightarrow> field_value r' g = field_value r g"
    using replace_field_frame [of r t f v] by blast
  with True show ?thesis by (simp add: updated_record_def)
next
  case False
  then have "\<not> isinstance r t \<or> field_value r f = None"
    using field_value_None [of r t f] by auto
  with False show ?thesis by (auto simp: updated_record_def)
qed

text \<open>
  C5, as amended. With a field name that is no other attribute of the tuple,
  \<open>change_field_value\<close> builds a sequence of the same length in which every record of
  the selected type that has the field holds the new value there and keeps its type and
  its other fields, and every other record is the record it was; it hands this whole
  sequence to \<open>write_file\<close>, so that the file holds the line of every record, in order,
  whenever every record of the sequence can be formatted.
\<close>

theorem change_field_value_frame:
  assumes "read_file file = (lg, Inr records)" and "field_name \<notin> set namedtuple_attrs"
  shows "\<exists>updated. update_records records record_type field_name new_value = Inr updated
           \<and> length updated = length records
           \<and> (\<forall>i<length records.
                 if isinstance (records ! i) record_type \<and> field_name \<in> set (fields_of record_type)
                 then isinstance (updated ! i) record_type
                      \<and> field_value (updated ! i) field_name = Some (PStr new_value)
                      \<and> (\<forall>g. g \<noteq> field_name \<longrightarrow>
                             field_value (updated ! i) g = field_value (records ! i) g)
                 else updated ! i = records ! i)
           \<and> (\<forall>lines. map format_record updated = map Inr lines \<longrightarrow>
                  change_field_value file record_type field_name new_value
                    = \<lparr>logged = lg, stored = lines, returned = Inr ()\<rparr>)"
proof -
  let ?updated = "map (updated_record record_type field_name new_value) records"
  have u: "update_records records record_type field_name new_value = Inr ?updated"
    using assms(2) by (rule update_records_map)
  have f: "\<forall>i<length records.
             if isinstance (records ! i) record_type \<and> field_name \<in> set (fields_of record_type)
             then isinstance (?updated ! i) record_type
                  \<and> field_value (?updated ! i) field_name = Some (PStr new_value)
                  \<and> (\<forall>g. g \<noteq> field_name \<longrightarrow>
                         field_value (?updated ! i) g = field_value (records ! i) g)
             else ?updated ! i = records ! i"
    using updated_record_frame [of _ record_type field_name new_value] by simp
  have p: "\<forall>lines. map format_record ?updated = map Inr lines \<longrightarrow>
             change_field_value file record_type field_name new_value
               = \<lparr>logged = lg, stored = lines, returned = Inr ()\<rparr>"
    using assms(1) u by (simp add: change_field_value_def persist_all)
  have l: "length ?updated = length records" by simp
  from u l f p show ?thesis by blast
qed

text \<open>
  The example of two Header records: both surnames are replaced, and nothing else
  changes in the sequence or in the file.
\<close>

theorem change_field_value_frame_witness:
  "read_file [sample_header_line, sample_header_line,
              sample_transaction_line ''000001'' ''000000001000'' ''USD'',
              sample_footer_line ''000001'' ''000000001000'']
     = ([], Inr [Header ''01'' ''John'' ''Doe'' ''Peter'' ''1 Main St'',
                 Header ''01'' ''John'' ''Doe'' ''Peter'' ''1 Main St'',
                 Transaction ''02'' (I 1) (F (Fin 10)) ''USD'',
                 Footer ''03'' (I 1) (F (Fin 10))])
   \<and> ''surname'' \<notin> set namedtuple_attrs
   \<and> update_records [Header ''01'' ''John'' ''Doe'' ''Peter'' ''1 Main St'',
                 Header ''01'' ''John'' ''Doe'' ''Peter'' ''1 Main St'',
                 Transaction ''02'' (I 1) (F (Fin 10)) ''USD'',
                 Footer ''03'' (I 1) (F (Fin 10))] HeaderT ''surname'' ''Smith''
     = Inr [Header ''01'' ''John'' ''Smith'' ''Peter'' ''1 Main St'',
            Header ''01'' ''John'' ''Smith'' ''Peter'' ''1 Main St'',
            Transaction ''02'' (I 1) (F (Fin 10)) ''USD'',
            Footer ''03'' (I 1) (F (Fin 10))]
   \<and> change_field_value [sample_header_line, sample_header_line,
              sample_transaction_line ''000001'' ''000000001000'' ''USD'',
              sample_footer_line ''000001'' ''000000001000''] HeaderT ''surname'' ''Smith''
     = \<lparr>logged = [],
        stored = [sample_header_with ''Smith'', sample_header_with ''Smith'',
                  sample_transaction_line ''000001'' ''000000001000'' ''USD'',
                  sample_footer_line ''000001'' ''000000001000''],
        returned = Inr ()\<rparr>"
proof -
  let ?file = "[sample_header_line, sample_header_line,
              sample_transaction_line ''000001'' ''000000001000'' ''USD'',
              sample_footer_line ''000001'' ''000000001000'']"
  let ?records = "[Header ''01'' ''John'' ''Doe'' ''Peter'' ''1 Main St'',
                 Header ''01'' ''John'' ''Doe'' ''Peter'' ''1 Main St'',
                 Transaction ''02'' (I 1) (F (Fin 10)) ''USD'',
                 Footer ''03'' (I 1) (F (Fin 10))]"
  let ?updated = "[Header ''01'' ''John'' ''Smith'' ''Peter'' ''1 Main St'',
            Header ''01'' ''John'' ''Smith'' ''Peter'' ''1 Main St'',
            Transaction ''02'' (I 1) (F (Fin 10)) ''USD'',
            Footer ''03'' (I 1) (F (Fin 10))]"
  let ?lines = "[sample_header_with ''Smith'', sample_header_with ''Smith'',
                  sample_transaction_line ''000001'' ''000000001000'' ''USD'',
                  sample_footer_line ''000001'' ''000000001000'']"
  have r: "read_file ?file = ([], Inr ?records)" by code_simp
  have a: "''surname'' \<notin> set namedtuple_attrs" by code_simp
  have u: "update_records ?records HeaderT ''surname'' ''Smith'' = Inr ?updated" by code_simp
  have f: "map format_record ?updated = map Inr ?lines" by code_simp
  from change_field_value_frame [OF r a, of HeaderT "''Smith''"] u f
  have "change_field_value ?file HeaderT ''surname'' ''Smith''
          = \<lparr>logged = [], stored = ?lines, returned = Inr ()\<rparr>"
    by auto
  with r a u show ?thesis by blast
qed

text \<open>
  The new value is not checked. With the amount \<open>abc\<close> the rewritten sequence has
  three records, the Transaction cannot be formatted (\<open>int('abc' * 100)\<close> raises), and
  the file is left with the Header line alone.
\<close>

theorem change_field_value_truncates_counterexample:
  "update_records [Header ''01'' ''John'' ''Doe'' ''Peter'' ''1 Main St'',
                   Transaction ''02'' (I 1) (F (Fin 10)) ''USD'',
                   Footer ''03'' (I 1) (F (Fin 10))] TransactionT ''amount'' ''abc''
     = Inr [Header ''01'' ''John'' ''Doe'' ''Peter'' ''1 Main St'',
            Transaction ''02'' (I 1) (FS ''abc'') ''USD'',
            Footer ''03'' (I 1) (F (Fin 10))]
   \<and> change_field_value [sample_header_line,
        sample_transaction_line ''000001'' ''000000001000'' ''USD'',
        sample_footer_line ''000001'' ''000000001000''] TransactionT ''amount'' ''abc''
     = \<lparr>logged = [], stored = [sample_header_line], returned = Inl ValueError\<rparr>"
  by code_simp

text \<open>
  C6. \<open>change_field_value\<close> reports nothing and rewrites the file when no record of
  the type exists, and when the type has no field of the name: here the file loses its
  line of unknown tag in both cases.
\<close>

theorem change_field_value_rewrites_without_report:
  "change_field_value [''99 a line of unknown tag'', sample_header_line] TransactionT
       ''currency'' ''EUR''
     = \<lparr>logged = [], stored = [sample_header_line], returned = Inr ()\<rparr>
   \<and> change_field_value [''99 a line of unknown tag'', sample_header_line] HeaderT
       ''currency'' ''EUR''
     = \<lparr>logged = [], stored = [sample_header_line], returned = Inr ()\<rparr>"
  by code_simp

section \<open>\<open>add_transaction\<close>\<close>

text \<open>
  C10, as amended. When the file decodes to no record, \<open>add_transaction\<close> with an
  amount whose hundredfold is a finite float does not fail: \<open>insert(-1, ...)\<close> on the
  empty list puts the new Transaction at index 0, and the file then holds its line and
  nothing else.
\<close>

theorem add_transaction_on_empty:
  assumes "read_file file = (lg, Inr [])" and "float_mul100 amount = Fin y"
  shows "\<exists>line. format_transaction TRANSACTION_FIELD_ID (I counter) (F amount) currency = Inr line
           \<and> insert_at (- 1) (Transaction TRANSACTION_FIELD_ID (I counter) (F amount) currency) []
               = [Transaction TRANSACTION_FIELD_ID (I counter) (F amount) currency]
           \<and> add_transaction file counter amount currency
               = \<lparr>logged = lg, stored = [line], returned = Inr ()\<rparr>"
proof -
  from assms(2) obtain line
    where l: "format_transaction TRANSACTION_FIELD_ID (I counter) (F amount) currency = Inr line"
    using format_transaction_finite by blast
  have "persist lg [Transaction TRANSACTION_FIELD_ID (I counter) (F amount) currency]
          = \<lparr>logged = lg, stored = [line], returned = Inr ()\<rparr>"
    by (rule persist_all) (simp add: l)
  with assms(1) l show ?thesis
    by (simp add: add_transaction_def insert_at_minus1_Nil)
qed

theorem add_transaction_on_empty_witness:
  "read_file [''99 a line of unknown tag''] = ([], Inr [])
   \<and> float_mul100 (Fin 45) = Fin 4500
   \<and> add_transaction [''99 a line of unknown tag''] 3 (Fin 45) ''USD''
       = \<lparr>logged = [], stored = [sample_transaction_line ''000003'' ''000000004500'' ''USD''],
          returned = Inr ()\<rparr>"
proof -
  have h1: "read_file [''99 a line of unknown tag''] = ([], Inr [])" by code_simp
  have h2: "float_mul100 (Fin 45) = Fin 4500" by code_simp
  have h3: "format_transaction TRANSACTION_FIELD_ID (I 3) (F (Fin 45)) ''USD''
              = Inr (sample_transaction_line ''000003'' ''000000004500'' ''USD'')" by code_simp
  from add_transaction_on_empty [OF h1 h2, of 3 "''USD''"] h3 h1 h2 show ?thesis by auto
qed

text \<open>
  With an infinite amount, or one that is not a number, the call fails on a file that
  decodes to no record: the list is \<open>[new_transaction]\<close>, \<open>int(amount * 100)\<close>
  raises in \<open>write_file\<close> after the file was opened for writing, and the file is left
  empty.
\<close>

theorem add_transaction_on_empty_counterexample:
  "read_file [''99 a line of unknown tag''] = ([], Inr [])
   \<and> add_transaction [''99 a line of unknown tag''] 3 PosInf ''USD''
       = \<lparr>logged = [], stored = [], returned = Inl OverflowError\<rparr>
   \<and> add_transaction [''99 a line of unknown tag''] 3 NaN ''USD''
       = \<lparr>logged = [], stored = [], returned = Inl ValueError\<rparr>"
  by code_simp

text \<open>
  C4, as amended. When the file decodes to at least one record, \<open>add_transaction\<close>
  puts the new Transaction immediately before the last record, whatever that record is:
  the records before it and the last record are the records they were, the sequence is
  one longer, and the new Transaction stands at the index the last record had. It hands
  the result to \<open>write_file\<close>, so that the file holds the line of every record, in
  order, whenever every record can be formatted.
\<close>

theorem add_transaction_before_last:
  assumes "read_file file = (lg, Inr records)" and "records \<noteq> []"
  shows "\<exists>result. result = insert_at (- 1) (Transaction TRANSACTION_FIELD_ID (I counter) (F amount) currency) records
           \<and> result = butlast records @ [Transaction TRANSACTION_FIELD_ID (I counter) (F amount) currency, last records]
           \<and> length result = length records + 1
           \<and> result ! (length records - 1) = Transaction TRANSACTION_FIELD_ID (I counter) (F amount) currency
           \<and> (\<forall>lines. map format_record result = map Inr lines \<longrightarrow>
                  add_transaction file counter amount currency
                    = \<lparr>logged = lg, stored = lines, returned = Inr ()\<rparr>)"
proof -
  let ?new = "Transaction TRANSACTION_FIELD_ID (I counter) (F amount) currency"
  let ?result = "insert_at (- 1) ?new records"
  have r: "?result = butlast records @ [?new, last records]"
    using assms(2) by (rule insert_at_minus1)
  have len: "length ?result = length records + 1"
    using assms(2) by (simp add: r)
  have at: "?result ! (length records - 1) = ?new"
    by (simp add: r nth_append)
  have p: "\<forall>lines. map format_record ?result = map Inr lines \<longrightarrow>
             add_transaction file counter amount currency
               = \<lparr>logged = lg, stored = lines, returned = Inr ()\<rparr>"
    using assms(1) by (simp add: add_transaction_def persist_all)
  from r len at p show ?thesis by blast
qed

text \<open>
  On one Header, two Transactions and one Footer the result has five records, the new
  Transaction at index 3, and the line of the Footer is the line it was.
\<close>

theorem add_transaction_before_last_witness:
  "read_file [sample_header_line,
              sample_transaction_line ''000001'' ''000000001000'' ''USD'',
              sample_transaction_line ''000002'' ''000000001000'' ''EUR'',
              sample_footer_line ''000002'' ''000000002000'']
     = ([], Inr [Header ''01'' ''John'' ''Doe'' ''Peter'' ''1 Main St'',
                 Transaction ''02'' (I 1) (F (Fin 10)) ''USD'',
                 Transaction ''02'' (I 2) (F (Fin 10)) ''EUR'',
                 Footer ''03'' (I 2) (F (Fin 20))])
   \<and> insert_at (- 1) (Transaction ''02'' (I 3) (F (Fin 45)) ''USD'')
        [Header ''01'' ''John'' ''Doe'' ''Peter'' ''1 Main St'',
         Transaction ''02'' (I 1) (F (Fin 10)) ''USD'',
         Transaction ''02'' (I 2) (F (Fin 10)) ''EUR'',
         Footer ''03'' (I 2) (F (Fin 20))]
     = [Header ''01'' ''John'' ''Doe'' ''Peter'' ''1 Main St'',
        Transaction ''02'' (I 1) (F (Fin 10)) ''USD'',
        Transaction ''02'' (I 2) (F (Fin 10)) ''EUR'',
        Transaction ''02'' (I 3) (F (Fin 45)) ''USD'',
        Footer ''03'' (I 2) (F (Fin 20))]
   \<and> add_transaction [sample_header_line,
              sample_transaction_line ''000001'' ''000000001000'' ''USD'',
              sample_transaction_line ''000002'' ''000000001000'' ''EUR'',
              sample_footer_line ''000002'' ''000000002000''] 3 (Fin 45) ''USD''
     = \<lparr>logged = [],
        stored = [sample_header_line,
                  sample_transaction_line ''000001'' ''000000001000'' ''USD'',
                  sample_transaction_line ''000002'' ''000000001000'' ''EUR'',
                  sample_transaction_line ''000003'' ''000000004500'' ''USD'',
                  sample_footer_line ''000002'' ''000000002000''],
        returned = Inr ()\<rparr>"
proof -
  let ?file = "[sample_header_line,
              sample_transaction_line ''000001'' ''000000001000'' ''USD'',
              sample_transaction_line ''000002'' ''000000001000'' ''EUR'',
              sample_footer_line ''000002'' ''000000002000'']"
  let ?records = "[Header ''01'' ''John'' ''Doe'' ''Peter'' ''1 Main St'',
                 Transaction ''02'' (I 1) (F (Fin 10)) ''USD'',
                 Transaction ''02'' (I 2) (F (Fin 10)) ''EUR'',
                 Footer ''03'' (I 2) (F (Fin 20))]"
  let ?result = "[Header ''01'' ''John'' ''Doe'' ''Peter'' ''1 Main St'',
        Transaction ''02'' (I 1) (F (Fin 10)) ''USD'',
        Transaction ''02'' (I 2) (F (Fin 10)) ''EUR'',
        Transaction ''02'' (I 3) (F (Fin 45)) ''USD'',
        Footer ''03'' (I 2) (F (Fin 20))]"
  let ?lines = "[sample_header_line,
                  sample_transaction_line ''000001'' ''000000001000'' ''USD'',
                  sample_transaction_line ''000002'' ''000000001000'' ''EUR'',
                  sample_transaction_line ''000003'' ''000000004500'' ''USD'',
                  sample_footer_line ''000002'' ''000000002000'']"
  have r: "read_file ?file = ([], Inr ?records)" by code_simp
  have ne: "?records \<noteq> []" by simp
  have i: "insert_at (- 1) (Transaction ''02'' (I 3) (F (Fin 45)) ''USD'') ?records = ?result"
    by code_simp
  have f: "map format_record ?result = map Inr ?lines" by code_simp
  from add_transaction_before_last [OF r ne, of 3 "Fin 45" "''USD''"] i f
  have "add_transaction ?file 3 (Fin 45) ''USD''
          = \<lparr>logged = [], stored = ?lines, returned = Inr ()\<rparr>"
    by (simp add: TRANSACTION_FIELD_ID_def)
  with r i show ?thesis by blast
qed

text \<open>The result there has neither four elements nor the new Transaction at index 2.\<close>

theorem add_transaction_example_counterexample:
  "\<not> (length (stored (add_transaction
          [sample_header_line,
           sample_transaction_line ''000001'' ''000000001000'' ''USD'',
           sample_transaction_line ''000002'' ''000000001000'' ''EUR'',
           sample_footer_line ''000002'' ''000000002000''] 3 (Fin 45) ''USD'')) = 4
      \<and> stored (add_transaction
          [sample_header_line,
           sample_transaction_line ''000001'' ''000000001000'' ''USD'',
           sample_transaction_line ''000002'' ''000000001000'' ''EUR'',
           sample_footer_line ''000002'' ''000000002000''] 3 (Fin 45) ''USD'') ! 2
        = sample_transaction_line ''000003'' ''000000004500'' ''USD'')"
  by code_simp

section \<open>\<open>validate_file_structure\<close>\<close>

lemma amounts_decoded:
  "list_all decoded ts \<Longrightarrow> list_all (\<lambda>i. isinstance i TransactionT) ts \<Longrightarrow>
     amounts ts = Inr (map F (float_amounts ts))"
proof (induction ts)
  case Nil
  then show ?case by (simp add: float_amounts_def)
next
  case (Cons t ts)
  from Cons.prems obtain fid n x cur where t: "t = Transaction fid (I n) (F x) cur"
    by (cases t rule: decoded.cases) auto
  from Cons have "amounts ts = Inr (map F (float_amounts ts))" by simp
  with t show ?case by (simp add: float_amounts_def)
qed

lemma fl_zero: "fl 0 = Fin 0"
  by (simp add: fl_def)

lemma sum_from_floats:
  "sum_from (NFloat a) (map F xs) = Inr (NFloat (foldl float_add a xs))"
  by (induction xs arbitrary: a) (simp_all add: num_add_def)

lemma py_sum_floats: "py_sum (map F xs) = Inr (amount_sum xs)"
  by (cases xs)
    (simp_all add: py_sum_def amount_sum_def num_add_def float_of_int_def fl_zero sum_from_floats)

lemma decoded_middle: "list_all decoded rs \<Longrightarrow> list_all decoded (butlast (tl rs))"
proof -
  assume a: "list_all decoded rs"
  have "set (butlast (tl rs)) \<subseteq> set (tl rs)"
    by (auto dest: in_set_butlastD)
  moreover have "set (tl rs) \<subseteq> set rs"
    by (cases rs) auto
  ultimately have "set (butlast (tl rs)) \<subseteq> set rs"
    by blast
  with a show ?thesis by (auto simp: list_all_iff)
qed


lemma validate_records_decoded:
  assumes d: "list_all decoded rs" and ne: "rs \<noteq> []"
  shows "validate_records rs
           = ([first_failing (structure_checks rs)],
              Inr (first_failing (structure_checks rs) = StructureValid))"
proof (cases "first_is_header rs")
  case False
  with ne show ?thesis
    by (cases rs) (simp_all add: validate_records_def index_def first_is_header_def structure_checks_def)
next
  case h: True
  then have h': "isinstance (hd rs) HeaderT" using ne by (cases rs) (simp_all add: first_is_header_def)
  show ?thesis
  proof (cases "last_is_footer rs")
    case False
    with h h' ne show ?thesis
      by (simp add: validate_records_def index_first index_last last_is_footer_def structure_checks_def)
  next
    case f: True
    then have f': "isinstance (last rs) FooterT" by (simp add: last_is_footer_def)
    from d ne have "decoded (last rs)" by (simp add: list_all_iff)
    with f' obtain fid n c where l: "last rs = Footer fid (I n) (F c)"
      by (cases "last rs" rule: decoded.cases) auto
    show ?thesis
    proof (cases "middle_all_transactions rs")
      case False
      with h h' f f' ne show ?thesis
        by (simp add: validate_records_def index_first index_last slice_middle
            middle_all_transactions_def middle_def structure_checks_def)
    next
      case m: True
      then have m': "list_all (\<lambda>i. isinstance i TransactionT) (butlast (tl rs))"
        by (simp add: middle_all_transactions_def middle_def)
      have am: "amounts (butlast (tl rs)) = Inr (map F (float_amounts (butlast (tl rs))))"
        using decoded_middle [OF d] m' by (rule amounts_decoded)
      show ?thesis
      proof (cases "counter_matches rs")
        case False
        with h h' f f' m m' ne l show ?thesis
          by (simp add: validate_records_def index_first index_last slice_middle
              counter_matches_def middle_def counter_ne_def structure_checks_def)
      next
        case c: True
        then have c': "n = int (length (butlast (tl rs)))"
          using l by (simp add: counter_matches_def middle_def)
        show ?thesis
          using h h' f f' m m' c c' ne l am
          by (simp add: validate_records_def index_first index_last slice_middle
              counter_ne_def py_sum_floats round2_def structure_checks_def
              control_sum_matches_def footer_control_sum_def middle_def num_round2_def)
      qed
    qed
  qed
qed

text \<open>
  C3. On a file that decodes to no record, \<open>validate_file_structure\<close> returns no
  verdict: \<open>records[0]\<close> raises \<open>IndexError\<close>.
\<close>

theorem validate_file_structure_empty_raises:
  "validate_file_structure [] = \<lparr>logged = [], stored = [], returned = Inl IndexError\<rparr>"
  by code_simp



text \<open>
  C9. When the first four checks pass, the verdict is the equality of the sum of the
  amounts rounded to two decimals and the Footer's control sum rounded to two decimals.
\<close>

theorem control_sum_compared_rounded:
  assumes "read_file file = (lg, Inr records)"
    and "first_is_header records" and "last_is_footer records"
    and "middle_all_transactions records" and "counter_matches records"
  shows "\<exists>c. control_sum_attr (last records) = Inr (F c)
           \<and> returned (validate_file_structure file)
               = Inr (num_eq (num_round2 (amount_sum (float_amounts (middle records))))
                        (num_round2 (NFloat c)))"
proof -
  have d: "list_all decoded records" using assms(1) by (rule read_file_decoded)
  from assms(3) have ne: "records \<noteq> []" by (simp add: last_is_footer_def)
  from d ne have "decoded (last records)" by (simp add: list_all_iff)
  with assms(3) obtain fid n c where l: "last records = Footer fid (I n) (F c)"
    by (cases "last records" rule: decoded.cases) (auto simp: last_is_footer_def)
  have "first_failing (structure_checks records) = StructureValid
          \<longleftrightarrow> num_eq (num_round2 (amount_sum (float_amounts (middle records))))
                (num_round2 (NFloat c))"
    using assms(2-5) l
    by (simp add: structure_checks_def control_sum_matches_def footer_control_sum_def)
  with assms(1) ne validate_records_decoded [OF d ne] l show ?thesis
    by (simp add: validate_file_structure_def)
qed

text \<open>
  The control sum 20.005 is not the sum 20.0 of the amounts, and the file is valid: both
  round to 20.0.
\<close>

theorem control_sum_compared_rounded_witness:
  "read_file [sample_header_line,
              sample_transaction_line ''000001'' ''000000001000'' ''USD'',
              sample_transaction_line ''000002'' ''000000001000'' ''EUR'',
              sample_footer_line ''000002'' ''2000.5      '']
     = ([], Inr [Header ''01'' ''John'' ''Doe'' ''Peter'' ''1 Main St'',
                 Transaction ''02'' (I 1) (F (Fin 10)) ''USD'',
                 Transaction ''02'' (I 2) (F (Fin 10)) ''EUR'',
                 Footer ''03'' (I 2) (F (fl (20005 / 1000)))])
   \<and> first_is_header [Header ''01'' ''John'' ''Doe'' ''Peter'' ''1 Main St'',
                 Transaction ''02'' (I 1) (F (Fin 10)) ''USD'',
                 Transaction ''02'' (I 2) (F (Fin 10)) ''EUR'',
                 Footer ''03'' (I 2) (F (fl (20005 / 1000)))]
   \<and> last_is_footer [Header ''01'' ''John'' ''Doe'' ''Peter'' ''1 Main St'',
                 Transaction ''02'' (I 1) (F (Fin 10)) ''USD'',
                 Transaction ''02'' (I 2) (F (Fin 10)) ''EUR'',
                 Footer ''03'' (I 2) (F (fl (20005 / 1000)))]
   \<and> middle_all_transactions [Header ''01'' ''John'' ''Doe'' ''Peter'' ''1 Main St'',
                 Transaction ''02'' (I 1) (F (Fin 10)) ''USD'',
                 Transaction ''02'' (I 2) (F (Fin 10)) ''EUR'',
                 Footer ''03'' (I 2) (F (fl (20005 / 1000)))]
   \<and> counter_matches [Header ''01'' ''John'' ''Doe'' ''Peter'' ''1 Main St'',
                 Transaction ''02'' (I 1) (F (Fin 10)) ''USD'',
                 Transaction ''02'' (I 2) (F (Fin 10)) ''EUR'',
                 Footer ''03'' (I 2) (F (fl (20005 / 1000)))]
   \<and> fl (20005 / 1000) \<noteq> Fin 20
   \<and> float_round2 (fl (20005 / 1000)) = Fin 20
   \<and> returned (validate_file_structure [sample_header_line,
              sample_transaction_line ''000001'' ''000000001000'' ''USD'',
              sample_transaction_line ''000002'' ''000000001000'' ''EUR'',
              sample_footer_line ''000002'' ''2000.5      ''])
       = Inr True"
proof -
  let ?file = "[sample_header_line,
              sample_transaction_line ''000001'' ''000000001000'' ''USD'',
              sample_transaction_line ''000002'' ''000000001000'' ''EUR'',
              sample_footer_line ''000002'' ''2000.5      '']"
  let ?records = "[Header ''01'' ''John'' ''Doe'' ''Peter'' ''1 Main St'',
                 Transaction ''02'' (I 1) (F (Fin 10)) ''USD'',
                 Transaction ''02'' (I 2) (F (Fin 10)) ''EUR'',
                 Footer ''03'' (I 2) (F (fl (20005 / 1000)))]"
  have r: "read_file ?file = ([], Inr ?records)" by code_simp
  have h: "first_is_header ?records" by code_simp
  have f: "last_is_footer ?records" by code_simp
  have m: "middle_all_transactions ?records" by code_simp
  have c: "counter_matches ?records" by code_simp
  have n: "fl (20005 / 1000) \<noteq> Fin 20" by code_simp
  have n2: "float_round2 (fl (20005 / 1000)) = Fin 20" by code_simp
  have e: "num_eq (num_round2 (amount_sum (float_amounts (middle ?records))))
             (num_round2 (NFloat (fl (20005 / 1000))))" by code_simp
  from control_sum_compared_rounded [OF r h f m c] e
  have "returned (validate_file_structure ?file) = Inr True" by simp
  with r h f m c n n2 show ?thesis by blast
qed

end
